theory Spec2Isabelle
  imports Main "HOL-Library.AList"
begin

section \<open>JavaScript values\<close>

text \<open>
  Plain data (form values, extra data, pass-through properties) is JSON-like, with
  JavaScript's \<open>undefined\<close> beside \<open>null\<close>. An object is an association list in key
  order.
\<close>

datatype json =
    JUndefined
  | JNull
  | JBool bool
  | JNum int
  | JStr string
  | JArr "json list"
  | JObj "(string \<times> json) list"

type_synonym obj = "(string \<times> json) list"

text \<open>A React ref object: \<open>{ current: ... }\<close>, here the handle of the shared extra data.\<close>

record ExtraDataRef =
  current :: obj

text \<open>\<open>ScopeType\<close>: what \<open>valueGetter\<close> hands to a function-valued property.\<close>

record ScopeType =
  formData :: obj
  extraDataRef :: ExtraDataRef

text \<open>A JavaScript exception, as a value.\<close>

datatype error = Thrown string

text \<open>
  A property of a field is either plain data or a function of the scope
  (\<open>typeof value === 'function'\<close>), which may throw.
\<close>

datatype jsval =
    Lit json
  | Fn "ScopeType \<Rightarrow> error + jsval"

fun isFunction :: "jsval \<Rightarrow> bool" where
  "isFunction (Lit j) = False"
| "isFunction (Fn f) = True"

text \<open>JavaScript truthiness (\<open>!x\<close>, \<open>x ? a : b\<close>, \<open>x && y\<close>).\<close>

fun truthyJson :: "json \<Rightarrow> bool" where
  "truthyJson JUndefined = False"
| "truthyJson JNull = False"
| "truthyJson (JBool b) = b"
| "truthyJson (JNum n) = (n \<noteq> 0)"
| "truthyJson (JStr s) = (s \<noteq> [])"
| "truthyJson (JArr xs) = True"
| "truthyJson (JObj kvs) = True"

fun truthy :: "jsval \<Rightarrow> bool" where
  "truthy (Lit j) = truthyJson j"
| "truthy (Fn f) = True"

text \<open>\<open>a ?? b\<close> on plain data.\<close>

fun nullish :: "json \<Rightarrow> bool" where
  "nullish JUndefined = True"
| "nullish JNull = True"
| "nullish j = False"

definition coalesce :: "json \<Rightarrow> json \<Rightarrow> json" where
  "coalesce a b = (if nullish a then b else a)"

text \<open>Property read \<open>o.k\<close> and optional read \<open>o?.k\<close> on plain data.\<close>

fun getProp :: "json \<Rightarrow> string \<Rightarrow> json" where
  "getProp (JObj kvs) k = (case map_of kvs k of None \<Rightarrow> JUndefined | Some v \<Rightarrow> v)"
| "getProp j k = JUndefined"

text \<open>
  Object spread \<open>{ ...a, ...b }\<close>: the keys of \<open>a\<close> in order, each overridden by \<open>b\<close>,
  then the new keys of \<open>b\<close>.
\<close>

definition spread :: "('k \<times> 'v) list \<Rightarrow> ('k \<times> 'v) list \<Rightarrow> ('k \<times> 'v) list" where
  "spread a b = foldl (\<lambda>acc (k, v). AList.update k v acc) a b"

text \<open>Exceptions propagate through a sequence of evaluations.\<close>

definition bindE :: "error + 'a \<Rightarrow> ('a \<Rightarrow> error + 'b) \<Rightarrow> error + 'b" where
  "bindE m f = (case m of Inl e \<Rightarrow> Inl e | Inr x \<Rightarrow> f x)"

section \<open>The form renderer's state\<close>

datatype ServiceTriggerEnum = onMount | onFocus | onBlur | onSearch | onChange

text \<open>
  \<open>FieldItemMetaType\<close>, with the fields \<open>FormItemWrapper\<close> reads from it. A property the
  configuration leaves out is \<open>undefined\<close>.
\<close>

record FieldItemMetaType =
  fieldName :: string
  valuePropName :: json
  initialValue :: json
  label :: jsval
  labelAlign :: json
  widget :: string
  widgetProps :: "(string \<times> jsval) list"
  hidden :: jsval
  rules :: jsval
  tooltip :: json
  colon :: json
  extra :: json
  trigger :: json
  valueDerived :: jsval
  servicesTriggers :: "ServiceTriggerEnum list"
  colProps :: json
  destroy :: jsval
  required :: jsval
  noStyle :: json

text \<open>
  Calls that leave the two components: to the publish/subscribe centre, to the
  interaction subscriber, to the caller's \<open>onValuesChange\<close> and to the warning
  reporter. The components are observed through the sequence of these calls. The
  \<open>extraDataRef\<close> argument of the publish calls is always the renderer's one reference
  and is left out; of the caller's \<open>onValuesChange\<close> the changed values are recorded,
  and of \<open>subscribe\<close> the field list.
\<close>

datatype Call =
    PublishServiceEvent string ServiceTriggerEnum obj "json list option"
  | BatchPublishServiceEvent "string list" ServiceTriggerEnum obj
  | Subscribe "json list"
  | PropsOnValuesChange obj
  | Warning string string

text \<open>
  What the renderer owns: the form instance's values (\<open>form.getFieldsValue()\<close>), the
  content of \<open>extraDataRef\<close>, the \<open>formItemsMeta\<close> state and the calls made so far.
\<close>

record RendererState =
  fieldsValue :: obj
  extraData :: obj
  formItemsMeta :: "FieldItemMetaType list"
  calls :: "Call list"

definition getFieldsValue :: "RendererState \<Rightarrow> obj" where
  "getFieldsValue s = fieldsValue s"

definition theExtraDataRef :: "RendererState \<Rightarrow> ExtraDataRef" where
  "theExtraDataRef s = \<lparr>current = extraData s\<rparr>"

section \<open>FormRenderer\<close>

subsection \<open>valueGetter\<close>

definition valueGetter :: "RendererState \<Rightarrow> jsval \<Rightarrow> error + jsval" where
  "valueGetter s v =
     (let scope = \<lparr>formData = getFieldsValue s, extraDataRef = theExtraDataRef s\<rparr>
      in case v of
           Lit j \<Rightarrow> Inr (Lit j)
         | Fn f \<Rightarrow> f scope)"

text \<open>
  Reading a property of the scope object \<open>{ formData: ..., extraDataRef }\<close> by its key:
  the object has these two keys and no other.
\<close>

definition scopeProp :: "ScopeType \<Rightarrow> string \<Rightarrow> json" where
  "scopeProp scope k =
     (if k = ''formData'' then JObj (formData scope)
      else if k = ''extraDataRef'' then JObj [(''current'', JObj (current (extraDataRef scope)))]
      else JUndefined)"

subsection \<open>The extra-data updater\<close>

text \<open>
  Modelled from the spec: the hook \<open>useExtraData\<close> is not among the sources. Its
  updater is the caller's explicit "update extra-state" entry point of the Shared
  Extra-State (spec, 5): it stores its argument as the content of \<open>extraDataRef\<close>.
\<close>

definition updateExtraData :: "obj \<Rightarrow> RendererState \<Rightarrow> RendererState" where
  "updateExtraData d s = s\<lparr>extraData := d\<rparr>"

text \<open>\<open>{ ...x }\<close> of a value that may be \<open>undefined\<close> copies nothing then.\<close>

definition ownProps :: "obj option \<Rightarrow> obj" where
  "ownProps d = (case d of None \<Rightarrow> [] | Some kvs \<Rightarrow> kvs)"

subsection \<open>The effect on a new jsonConfig\<close>

record JsonConfigType =
  fieldList :: "json list option"

text \<open>\<open>jsonConfig?.fieldList ?? []\<close>.\<close>

definition configFieldList :: "JsonConfigType option \<Rightarrow> json list" where
  "configFieldList jsonConfig =
     (case jsonConfig of None \<Rightarrow> []
      | Some c \<Rightarrow> (case fieldList c of None \<Rightarrow> [] | Some l \<Rightarrow> l))"

text \<open>
  The layout effect of \<open>FormRenderer\<close>. The transformer \<open>JsonConfigTransformer\<close>
  (with its \<open>ruleMap\<close> and \<open>docsMap\<close>) is not among the sources and is the parameter
  \<open>transform\<close>; of the new centre and the new subscriber the call of \<open>subscribe\<close> is
  recorded.
\<close>

definition configEffect ::
  "(json list \<Rightarrow> FieldItemMetaType list) \<Rightarrow> obj option \<Rightarrow> JsonConfigType option \<Rightarrow>
   RendererState \<Rightarrow> RendererState" where
  "configEffect transform defaultExtraData jsonConfig s =
     (let s1 = updateExtraData
                 (spread (ownProps defaultExtraData)
                    [(''serviceLoading'',
                      coalesce (getProp (JObj (ownProps defaultExtraData)) ''serviceLoading'')
                        (JObj []))]) s;
          fieldList' = configFieldList jsonConfig;
          s2 = s1\<lparr>formItemsMeta := transform fieldList'\<rparr>
      in s2\<lparr>calls := calls s2 @ [Subscribe fieldList']\<rparr>)"

subsection \<open>The effect on a new defaultExtraData\<close>

text \<open>
  The body of the timer callback, run when the timer fires: \<open>extraDataRef.current\<close> is
  read at that moment.
\<close>

definition defaultExtraDataEffect :: "obj option \<Rightarrow> RendererState \<Rightarrow> RendererState" where
  "defaultExtraDataEffect defaultExtraData s =
     updateExtraData (spread (extraData s) (ownProps defaultExtraData)) s"

subsection \<open>onValuesChange\<close>

text \<open>\<open>Array.from(new Set(xs))\<close>: the elements in the order of their first occurrence.\<close>

definition arrayFromSet :: "'a list \<Rightarrow> 'a list" where
  "arrayFromSet xs = foldl (\<lambda>acc x. if x \<in> set acc then acc else acc @ [x]) [] xs"



section \<open>FormItemWrapper\<close>

subsection \<open>Elements\<close>

text \<open>
  A component is one of the two layout components the wrapper uses, the placeholder
  \<open>NotFoundWidget\<close>, or a widget implementation, known by its name.
\<close>

datatype component = Col | FormItem | NotFoundWidget | Implementation string

text \<open>
  An event handler, by what it does over time: from the invocations it receives, each
  with its time and arguments, to the calls it makes, each with its time.
\<close>

type_synonym handler = "(nat \<times> json list) list \<Rightarrow> (nat \<times> Call) list"

datatype propValue = PVal jsval | PHandler handler

text \<open>A React element: the component, its props in order, its children.\<close>

datatype element = Element component "(string \<times> propValue) list" "element list"

subsection \<open>Props\<close>

text \<open>What a widget lookup answers: \<open>null\<close>, \<open>undefined\<close> or an implementation.\<close>

datatype 'a nullable = Null | Undefined | Value 'a

text \<open>
  \<open>FormItemWrapperProps\<close>. The prop \<open>publishServiceEvent\<close> is observed through the
  calls; \<open>onDerivedValueChange\<close> is declared and never read. \<open>calcDerivedValue\<close> and
  \<open>valueGetter\<close> are the caller's functions: the first may change the form's values,
  the second reads them.
\<close>

record FormItemWrapperProps =
  formItemMeta :: FieldItemMetaType
  defaultSpan :: json
  getWidgets :: "string \<Rightarrow> component nullable"
  calcDerivedValue :: "string \<Rightarrow> jsval \<Rightarrow> RendererState \<Rightarrow> error + RendererState"
  valueGetterProp :: "RendererState \<Rightarrow> jsval \<Rightarrow> error + jsval"
  debounceSearch :: json

subsection \<open>Widget\<close>

text \<open>
  Modelled from the spec: the module \<open>internalWidgets\<close> is not among the sources. It is
  the internal widget registry, a mapping from identifier to implementation with an
  explicit "not found" answer (spec, 9), which is the \<open>null\<close> that \<open>Widget\<close> tests for.
  It is the parameter \<open>internalWidgets\<close>, with \<open>None\<close> for \<open>null\<close>.
\<close>

definition Widget ::
  "(string \<Rightarrow> component nullable) \<Rightarrow> (string \<Rightarrow> component option) \<Rightarrow> string \<Rightarrow>
   component \<times> Call list" where
  "Widget getWidgets' internalWidgets w =
     (let found = (case getWidgets' w of
                     Value c \<Rightarrow> Some c
                   | Null \<Rightarrow> internalWidgets w
                   | Undefined \<Rightarrow> internalWidgets w)
      in case found of
           None \<Rightarrow> (NotFoundWidget,
                     [Warning (''widget named `'' @ w @ ''` is not found!'') ''Widget''])
         | Some c \<Rightarrow> (c, []))"

subsection \<open>The mount effect\<close>

definition publishServiceEvent ::
  "string \<Rightarrow> ServiceTriggerEnum \<Rightarrow> obj \<Rightarrow> json list option \<Rightarrow> RendererState \<Rightarrow> RendererState" where
  "publishServiceEvent n kind formData' args s =
     s\<lparr>calls := calls s @ [PublishServiceEvent n kind formData' args]\<rparr>"

text \<open>The effect with the empty dependency list: React runs it once, when the component mounts.\<close>

definition mountEffect :: "FieldItemMetaType \<Rightarrow> RendererState \<Rightarrow> RendererState" where
  "mountEffect m s =
     (if onMount \<in> set (servicesTriggers m)
      then publishServiceEvent (fieldName m) onMount (getFieldsValue s) None s
      else s)"

subsection \<open>getServiceTriggerProps\<close>

text \<open>A handler that publishes a service event at each invocation, with its arguments.\<close>

definition serviceHandler :: "string \<Rightarrow> ServiceTriggerEnum \<Rightarrow> obj \<Rightarrow> handler" where
  "serviceHandler n kind formData' invocations =
     map (\<lambda>(t, args). (t, PublishServiceEvent n kind formData' (Some args))) invocations"

text \<open>
  Modelled from the spec: the helper \<open>debounce\<close> is not among the sources. It has the
  standard debounce semantics, trailing invocation after a delay (spec, 5): an invocation
  followed by another one less than \<open>wait\<close> later is dropped, and the last invocation of
  such a burst reaches the wrapped function \<open>wait\<close> after it was made. The delay
  \<open>wait\<close> is a parameter. Invocations come in the order of their times.
\<close>

fun trailing :: "nat \<Rightarrow> (nat \<times> 'a) list \<Rightarrow> (nat \<times> 'a) list" where
  "trailing wait [] = []"
| "trailing wait [(t, a)] = [(t + wait, a)]"
| "trailing wait ((t, a) # (t', a') # rest) =
     (if t' < t + wait then trailing wait ((t', a') # rest)
      else (t + wait, a) # trailing wait ((t', a') # rest))"

definition debounce :: "nat \<Rightarrow> handler \<Rightarrow> handler" where
  "debounce wait fn invocations = fn (trailing wait invocations)"

record ServiceTriggerProps =
  propOnBlur :: "handler option"
  propOnFocus :: "handler option"
  propOnSearch :: "handler option"

definition getServiceTriggerProps ::
  "nat \<Rightarrow> FormItemWrapperProps \<Rightarrow> obj \<Rightarrow> ServiceTriggerProps" where
  "getServiceTriggerProps wait P formData' =
     foldl (\<lambda>serviceTriggerProps t.
         let p1 = (if t = onFocus
                   then serviceTriggerProps\<lparr>propOnFocus :=
                          Some (serviceHandler (fieldName (formItemMeta P)) onFocus formData')\<rparr>
                   else serviceTriggerProps);
             p2 = (if t = onBlur
                   then p1\<lparr>propOnBlur :=
                          Some (serviceHandler (fieldName (formItemMeta P)) onBlur formData')\<rparr>
                   else p1)
         in if t = onSearch
            then (let onSearch' = serviceHandler (fieldName (formItemMeta P)) onSearch formData'
                  in p2\<lparr>propOnSearch :=
                          Some (if truthyJson (debounceSearch P) then debounce wait onSearch'
                                else onSearch')\<rparr>)
            else p2)
       \<lparr>propOnBlur = None, propOnFocus = None, propOnSearch = None\<rparr>
       (servicesTriggers (formItemMeta P))"

subsection \<open>widgetPropsGetter\<close>

fun widgetPropsGetter ::
  "(jsval \<Rightarrow> error + jsval) \<Rightarrow> (string \<times> jsval) list \<Rightarrow> (string \<times> propValue) list \<Rightarrow>
   error + (string \<times> propValue) list" where
  "widgetPropsGetter vg [] acc = Inr acc"
| "widgetPropsGetter vg ((key, v) # entries) acc =
     bindE (vg v) (\<lambda>r. widgetPropsGetter vg entries (AList.update key (PVal r) acc))"

subsection \<open>The rendered field\<close>

text \<open>The destructuring default \<open>hidden = false\<close> applies to \<open>undefined\<close> only.\<close>

definition hiddenOf :: "FieldItemMetaType \<Rightarrow> jsval" where
  "hiddenOf m = (case hidden m of Lit JUndefined \<Rightarrow> Lit (JBool False) | v \<Rightarrow> v)"

definition isUndefined :: "jsval \<Rightarrow> bool" where
  "isUndefined v = (case v of Lit JUndefined \<Rightarrow> True | _ \<Rightarrow> False)"

text \<open>\<open>{ ...colProps }\<close> as props.\<close>

definition propsOf :: "json \<Rightarrow> (string \<times> propValue) list" where
  "propsOf j = (case j of JObj kvs \<Rightarrow> map (\<lambda>(k, v). (k, PVal (Lit v))) kvs | _ \<Rightarrow> [])"

text \<open>
  The function child of the outer \<open>FormItem\<close>: \<open>null\<close> for a destroyed field, the column
  with the form item and the widget otherwise. The arguments of the elements are
  evaluated in the order they are written, and the first exception ends the function.
\<close>

definition renderField ::
  "nat \<Rightarrow> component \<Rightarrow> FormItemWrapperProps \<Rightarrow> RendererState \<Rightarrow>
   error + (element option \<times> RendererState)" where
  "renderField wait W P s =
     (let m = formItemMeta P in
      bindE (valueGetterProp P s (destroy m)) (\<lambda>d.
      if truthy d then Inr (None, s)
      else
      bindE (calcDerivedValue P (fieldName m) (valueDerived m) s) (\<lambda>s1.
      let stp = getServiceTriggerProps wait P (getFieldsValue s1);
          serviceProps =
            (case propOnBlur stp of None \<Rightarrow> [] | Some h \<Rightarrow> [(''onBlur'', PHandler h)]) @
            (case propOnFocus stp of None \<Rightarrow> [] | Some h \<Rightarrow> [(''onFocus'', PHandler h)]) @
            (case propOnSearch stp of None \<Rightarrow> [] | Some h \<Rightarrow> [(''onSearch'', PHandler h)])
      in
      bindE (valueGetterProp P s1 (hiddenOf m)) (\<lambda>h1.
      let span = (if truthy h1 then JNum 0
                  else coalesce (getProp (colProps m) ''span'') (defaultSpan P))
      in
      bindE (valueGetterProp P s1 (label m)) (\<lambda>l.
      bindE (valueGetterProp P s1 (rules m)) (\<lambda>r.
      bindE (valueGetterProp P s1 (hiddenOf m)) (\<lambda>h2.
      bindE (if isUndefined (required m) then Inr []
             else bindE (valueGetterProp P s1 (required m)) (\<lambda>q. Inr [(''required'', PVal q)]))
        (\<lambda>req.
      bindE (widgetPropsGetter (valueGetterProp P s1) (widgetProps m) []) (\<lambda>wp.
      Inr (Some
        (Element Col (spread (propsOf (colProps m)) [(''span'', PVal (Lit span))])
          [Element FormItem
             ([(''name'', PVal (Lit (JStr (fieldName m)))),
               (''initialValue'', PVal (Lit (initialValue m))),
               (''tooltip'', PVal (Lit (tooltip m))),
               (''label'', PVal l),
               (''rules'', PVal r),
               (''hidden'', PVal h2),
               (''colon'', PVal (Lit (colon m))),
               (''extra'', PVal (Lit (extra m))),
               (''labelAlign'', PVal (Lit (labelAlign m))),
               (''trigger'', PVal (Lit (trigger m))),
               (''valuePropName'', PVal (Lit (valuePropName m)))] @
              req @
              [(''noStyle'', PVal (Lit (noStyle m))),
               (''validateFirst'', PVal (Lit (JBool True)))])
             [Element W (spread wp serviceProps) []]]),
        s1))))))))))"

text \<open>
  The component at its first render: the memoised \<open>Widget\<close> is computed, its warning is
  a call, and the outer \<open>FormItem\<close> holds what the function child returns.
\<close>

definition FormItemWrapper ::
  "nat \<Rightarrow> (string \<Rightarrow> component option) \<Rightarrow> FormItemWrapperProps \<Rightarrow> RendererState \<Rightarrow>
   error + (element \<times> RendererState)" where
  "FormItemWrapper wait internalWidgets P s =
     (case Widget (getWidgets P) internalWidgets (widget (formItemMeta P)) of
        (W, warnings) \<Rightarrow>
          bindE (renderField wait W P (s\<lparr>calls := calls s @ warnings\<rparr>)) (\<lambda>(child, s1).
            Inr (Element FormItem
                   [(''noStyle'', PVal (Lit (JBool True))),
                    (''shouldUpdate'', PVal (Lit (JBool True)))]
                   (case child of None \<Rightarrow> [] | Some c \<Rightarrow> [c]),
                 s1)))"

section \<open>The fields of a loaded configuration\<close>

subsection \<open>Rendering the fields\<close>

text \<open>
  What the rendering of the fields depends on beside the state: the props \<open>getWidgets\<close>
  and \<open>debounceSearch\<close> of \<open>FormRenderer\<close>, both optional, the internal widget
  registry and the delay of \<open>debounce\<close>.
\<close>

record RenderContext =
  propGetWidgets :: "(string \<Rightarrow> component nullable) option"
  propDebounceSearch :: json
  registry :: "string \<Rightarrow> component option"
  debounceDelay :: nat

text \<open>
  One \<open>FormItemWrapper\<close> as \<open>FormRenderer\<close> renders it: with \<open>debounceSearch\<close>,
  \<open>valueGetter\<close>, \<open>getWidgets\<close> and \<open>formItemMeta\<close> (and \<open>publishServiceEvent\<close>, seen
  through the calls). No \<open>defaultSpan\<close> and no \<open>calcDerivedValue\<close> is passed: the first
  is \<open>undefined\<close>, and calling the second, as the function child of a field that is not
  destroyed does, throws a TypeError. So does calling \<open>getWidgets\<close> when the caller of
  \<open>FormRenderer\<close> gave none.
\<close>

definition renderFormItem ::
  "RenderContext \<Rightarrow> FieldItemMetaType \<Rightarrow> RendererState \<Rightarrow> error + (element \<times> RendererState)" where
  "renderFormItem ctx m s =
     (case propGetWidgets ctx of
        None \<Rightarrow> Inl (Thrown ''TypeError: getWidgets is not a function'')
      | Some g \<Rightarrow>
          FormItemWrapper (debounceDelay ctx) (registry ctx)
            \<lparr>formItemMeta = m,
             defaultSpan = JUndefined,
             getWidgets = g,
             calcDerivedValue =
               (\<lambda>n v s'. Inl (Thrown ''TypeError: calcDerivedValue is not a function'')),
             valueGetterProp = valueGetter,
             debounceSearch = propDebounceSearch ctx\<rparr>
            s)"

text \<open>
  \<open>formItemsMeta.map(...)\<close>: the fields are rendered in order, and an exception in one of
  them ends the render of the form. The \<open>header\<close> and the \<open>footer\<close> are the caller's and
  are left out. The memo \<open>Widget\<close> of a component is computed again when \<open>widget\<close> or
  \<open>getWidgets\<close> changes; the lookup is taken to be a new function at each render.
\<close>

fun renderFormItems ::
  "RenderContext \<Rightarrow> FieldItemMetaType list \<Rightarrow> RendererState \<Rightarrow>
   error + (element list \<times> RendererState)" where
  "renderFormItems ctx [] s = Inr ([], s)"
| "renderFormItems ctx (m # ms) s =
     bindE (renderFormItem ctx m s) (\<lambda>(el, s1).
     bindE (renderFormItems ctx ms s1) (\<lambda>(els, s2).
       Inr (el # els, s2)))"

subsection \<open>Mounting the fields\<close>

text \<open>
  \<open>FormRenderer\<close> gives each \<open>FormItemWrapper\<close> the key \<open>formItemMeta.fieldName\<close>.
  When a render throws, React commits nothing and no effect runs. When it returns, React
  keeps the component of a key that was rendered before and mounts the components of
  the other keys, running their mount effects in order. \<open>rendered\<close> is the
  \<open>formItemsMeta\<close> of the render before, \<open>render\<close> the outcome of this render.
\<close>

definition mountFormItems ::
  "FieldItemMetaType list \<Rightarrow> error + (element list \<times> RendererState) \<Rightarrow> error + RendererState" where
  "mountFormItems rendered render =
     (case render of
        Inl e \<Rightarrow> Inl e
      | Inr (els, s) \<Rightarrow>
          Inr (foldl (\<lambda>s' m. mountEffect m s') s
                 (filter (\<lambda>m. fieldName m \<notin> set (map fieldName rendered)) (formItemsMeta s))))"

text \<open>
  A jsonConfig is loaded: the layout effect subscribes and sets \<open>formItemsMeta\<close>, the
  fields are rendered, and if that render returns the new fields mount.
\<close>

definition loadConfig ::
  "RenderContext \<Rightarrow> (json list \<Rightarrow> FieldItemMetaType list) \<Rightarrow> obj option \<Rightarrow>
   JsonConfigType option \<Rightarrow> RendererState \<Rightarrow> error + RendererState" where
  "loadConfig ctx transform defaultExtraData jsonConfig s =
     (let s1 = configEffect transform defaultExtraData jsonConfig s
      in mountFormItems (formItemsMeta s) (renderFormItems ctx (formItemsMeta s1) s1))"

section \<open>The service events of the publish/subscribe centre\<close>

text \<open>
  Modelled from the spec: the classes \<open>PubSubCenter\<close> and \<open>InteractionSubscriber\<close> are
  not among the sources. What follows is the spec's \<open>publishServiceEvent\<close> (4.3): the
  bound service descriptor of a pair (field name, trigger kind), the sequence number
  stamped on each dispatch, the loading flag, and the handling of a response.
\<close>

type_synonym pair = "string \<times> ServiceTriggerEnum"

text \<open>A bound service: its name in the service pool and the fields to refresh afterward.\<close>

record Descriptor =
  service :: string
  targetFields :: "string list"

text \<open>A dispatched service call, stamped with its sequence number.\<close>

record Dispatch =
  dispatchPair :: pair
  seqNo :: nat
  dispatchService :: string
  dispatchFormData :: obj
  dispatchArgs :: "json list option"

record EventBus =
  bindings :: "(pair \<times> Descriptor) list"
  latestIssued :: "(pair \<times> nat) list"
  active :: bool
  extraState :: obj

text \<open>\<open>extraState.serviceLoading[fieldName] = flag\<close>.\<close>

definition setLoading :: "string \<Rightarrow> bool \<Rightarrow> obj \<Rightarrow> obj" where
  "setLoading n flag ext =
     AList.update ''serviceLoading''
       (JObj (AList.update n (JBool flag)
          (case getProp (JObj ext) ''serviceLoading'' of JObj kvs \<Rightarrow> kvs | _ \<Rightarrow> [])))
       ext"

definition issuedFor :: "EventBus \<Rightarrow> pair \<Rightarrow> nat" where
  "issuedFor bus p = (case map_of (latestIssued bus) p of None \<Rightarrow> 0 | Some n \<Rightarrow> n)"

text \<open>
  No bound descriptor, or a disposed bus: a no-op. Otherwise the next sequence number of
  the pair is issued, the loading flag of the field is set, and the call is dispatched.
\<close>

definition busPublishServiceEvent ::
  "string \<Rightarrow> ServiceTriggerEnum \<Rightarrow> obj \<Rightarrow> json list option \<Rightarrow> EventBus \<Rightarrow>
   Dispatch option \<times> EventBus" where
  "busPublishServiceEvent n kind formData' args bus =
     (if \<not> active bus then (None, bus)
      else case map_of (bindings bus) (n, kind) of
        None \<Rightarrow> (None, bus)
      | Some d \<Rightarrow>
          (let k = issuedFor bus (n, kind) + 1
           in (Some \<lparr>dispatchPair = (n, kind), seqNo = k, dispatchService = service d,
                      dispatchFormData = formData', dispatchArgs = args\<rparr>,
               bus\<lparr>latestIssued := AList.update (n, kind) k (latestIssued bus),
                    extraState := setLoading n True (extraState bus)\<rparr>)))"

text \<open>
  A response is applied only if its sequence number is the latest issued for its pair:
  on success the reported updates are merged into the extra-state and the loading flags
  of the target fields are cleared, on failure the loading flag is cleared without
  merging. An older response is dropped.
\<close>

definition busResponse :: "Dispatch \<Rightarrow> error + obj \<Rightarrow> EventBus \<Rightarrow> EventBus" where
  "busResponse d outcome bus =
     (case map_of (bindings bus) (dispatchPair d) of
        None \<Rightarrow> bus
      | Some b \<Rightarrow>
          if active bus \<and> seqNo d = issuedFor bus (dispatchPair d)
          then (case outcome of
                  Inr updates \<Rightarrow>
                    bus\<lparr>extraState :=
                      foldl (\<lambda>ext n. setLoading n False ext)
                        (spread (extraState bus) updates) (targetFields b)\<rparr>
                | Inl e \<Rightarrow>
                    bus\<lparr>extraState := setLoading (fst (dispatchPair d)) False (extraState bus)\<rparr>)
          else bus)"

text \<open>
  Disposing clears the subscriptions; later publishes are no-ops and later responses count
  as superseded.
\<close>

definition busDispose :: "EventBus \<Rightarrow> EventBus" where
  "busDispose bus = bus\<lparr>bindings := [], latestIssued := [], active := False\<rparr>"

section \<open>Notions used in the properties\<close>

text \<open>The \<open>destroy\<close> expression of a field evaluates, without throwing, to a value that is truthy or not.\<close>

definition destroyEvaluates :: "RendererState \<Rightarrow> FieldItemMetaType \<Rightarrow> bool \<Rightarrow> bool" where
  "destroyEvaluates s m b =
     (case valueGetter s (destroy m) of Inl e \<Rightarrow> False | Inr d \<Rightarrow> truthy d = b)"

text \<open>
  The deferred properties that \<open>renderField\<close> evaluates once the field is known not to be
  destroyed.
\<close>

definition deferredProps :: "FieldItemMetaType \<Rightarrow> jsval list" where
  "deferredProps m =
     [hiddenOf m, label m, rules m] @
     (if isUndefined (required m) then [] else [required m]) @
     map snd (widgetProps m)"

definition throws :: "error + 'a \<Rightarrow> bool" where
  "throws r = (case r of Inl e \<Rightarrow> True | Inr x \<Rightarrow> False)"

text \<open>
  The names \<open>onValuesChange\<close> hands to \<open>batchPublishServiceEvent\<close> when every
  \<open>destroy\<close> expression evaluates.
\<close>

definition firedNames :: "(string \<Rightarrow> string list) \<Rightarrow> obj \<Rightarrow> RendererState \<Rightarrow> string list" where
  "firedNames publishDepEvent changedValues s =
     arrayFromSet
       (filter
          (\<lambda>n. n \<in> set (map fieldName
                   (filter (\<lambda>m. destroyEvaluates s m False) (formItemsMeta s))))
          (map fst changedValues @
           foldl (\<lambda>acc n. acc @ publishDepEvent n) [] (map fst changedValues)))"




text \<open>A burst of invocations: each one comes less than \<open>wait\<close> after the one before.\<close>

fun burst :: "nat \<Rightarrow> (nat \<times> 'a) list \<Rightarrow> bool" where
  "burst wait [] = True"
| "burst wait [x] = True"
| "burst wait ((t, a) # (t', a') # rest) = (t' < t + wait \<and> burst wait ((t', a') # rest))"

text \<open>What the search handler of a rendered field does on given invocations.\<close>

definition searchCalls ::
  "nat \<Rightarrow> FormItemWrapperProps \<Rightarrow> obj \<Rightarrow> (nat \<times> json list) list \<Rightarrow> (nat \<times> Call) list option" where
  "searchCalls wait P formData' invocations =
     (case propOnSearch (getServiceTriggerProps wait P formData') of
        None \<Rightarrow> None
      | Some h \<Rightarrow> Some (h invocations))"

section \<open>Example data\<close>

definition plainField :: "string \<Rightarrow> FieldItemMetaType" where
  "plainField n =
     \<lparr>fieldName = n, valuePropName = JUndefined, initialValue = JUndefined,
      label = Lit (JStr n), labelAlign = JUndefined, widget = ''input'', widgetProps = [],
      hidden = Lit (JBool False), rules = Lit (JArr []), tooltip = JUndefined,
      colon = JUndefined, extra = JUndefined, trigger = JUndefined,
      valueDerived = Lit JUndefined, servicesTriggers = [], colProps = JUndefined,
      destroy = Lit (JBool False), required = Lit JUndefined, noStyle = JUndefined\<rparr>"

definition countryIs :: "string \<Rightarrow> jsval" where
  "countryIs c =
     Fn (\<lambda>sc. Inr (Lit (JBool (getProp (JObj (formData sc)) ''country'' = JStr c))))"

definition exampleState :: RendererState where
  "exampleState =
     \<lparr>fieldsValue = [(''country'', JStr ''DE'')],
      extraData = [(''token'', JStr ''abc'')],
      formItemsMeta =
        [plainField ''country'', plainField ''city'',
         (plainField ''state'')\<lparr>destroy := countryIs ''DE''\<rparr>],
      calls = []\<rparr>"

definition exampleDeps :: "string \<Rightarrow> string list" where
  "exampleDeps f = (if f = ''country'' then [''city'', ''state''] else [])"

definition exampleProps :: "FieldItemMetaType \<Rightarrow> FormItemWrapperProps" where
  "exampleProps m =
     \<lparr>formItemMeta = m, defaultSpan = JNum 24,
      getWidgets = (\<lambda>w. Undefined),
      calcDerivedValue = (\<lambda>n v s. Inr s),
      valueGetterProp = valueGetter,
      debounceSearch = JUndefined\<rparr>"

definition exampleWidgets :: "string \<Rightarrow> component option" where
  "exampleWidgets w = (if w = ''input'' then Some (Implementation ''Input'') else None)"

definition exampleBus :: EventBus where
  "exampleBus =
     \<lparr>bindings = [((''city'', onSearch), \<lparr>service = ''fetchCities'', targetFields = [''city'']\<rparr>)],
      latestIssued = [],
      active = True,
      extraState = [(''serviceLoading'', JObj [])]\<rparr>"

definition hiddenCity :: FieldItemMetaType where
  "hiddenCity = (plainField ''city'')\<lparr>hidden := countryIs ''DE''\<rparr>"

definition destroyedCity :: FieldItemMetaType where
  "destroyedCity =
     (plainField ''city'')\<lparr>destroy := countryIs ''DE'', servicesTriggers := [onMount]\<rparr>"

definition brokenCity :: FieldItemMetaType where
  "brokenCity = (plainField ''city'')\<lparr>label := Fn (\<lambda>sc. Inl (Thrown ''boom''))\<rparr>"

definition searchCity :: FieldItemMetaType where
  "searchCity = (plainField ''city'')\<lparr>servicesTriggers := [onSearch]\<rparr>"

definition unknownCity :: FieldItemMetaType where
  "unknownCity = (plainField ''city'')\<lparr>widget := ''cascader''\<rparr>"





section \<open>Properties\<close>

subsection \<open>Evaluation results\<close>

lemma throws_simps [simp]: "throws (Inl e) = True" "throws (Inr x) = False"
  by (simp_all add: throws_def)

lemma not_throws_iff: "\<not> throws r \<longleftrightarrow> (\<exists>x. r = Inr x)"
  by (cases r) simp_all

lemma bindE_simps [simp]: "bindE (Inl e) f = Inl e" "bindE (Inr x) f = f x"
  by (simp_all add: bindE_def)

lemma throws_bindE: "throws (bindE r f) \<longleftrightarrow> throws r \<or> (\<exists>x. r = Inr x \<and> throws (f x))"
  by (cases r) simp_all

subsection \<open>Object spread\<close>

lemma map_of_spread:
  "distinct (map fst b) \<Longrightarrow> map_of (spread a b) = map_of a ++ map_of b"
proof (induction b arbitrary: a)
  case Nil
  then show ?case by (simp add: spread_def)
next
  case (Cons kv b)
  obtain k v where kv: "kv = (k, v)" by (cases kv)
  from Cons.prems kv have fresh: "map_of b k = None" and d: "distinct (map fst b)"
    by (auto simp: map_of_eq_None_iff)
  have "map_of (spread a (kv # b)) = map_of (spread (AList.update k v a) b)"
    by (simp add: spread_def kv)
  also have "\<dots> = (map_of a)(k \<mapsto> v) ++ map_of b"
    using Cons.IH [OF d, of "AList.update k v a"] by (simp only: update_conv')
  also have "\<dots> = map_of a ++ map_of (kv # b)"
    using fresh by (auto simp: kv map_add_def fun_eq_iff split: option.splits)
  finally show ?case .
qed

lemma map_of_spread_last: "map_of (spread a [(k, v)]) k = Some v"
  by (simp add: spread_def update_conv')

subsection \<open>The names handed to batchPublishServiceEvent\<close>

lemma arrayFromSet_acc:
  "distinct acc \<Longrightarrow>
   distinct (foldl (\<lambda>acc x. if x \<in> set acc then acc else acc @ [x]) acc xs) \<and>
   set (foldl (\<lambda>acc x. if x \<in> set acc then acc else acc @ [x]) acc xs) = set acc \<union> set xs"
  by (induction xs arbitrary: acc) auto


lemma set_arrayFromSet: "set (arrayFromSet xs) = set xs"
  using arrayFromSet_acc [of "[]" xs] by (simp add: arrayFromSet_def)

lemma set_interactFields:
  "set (foldl (\<lambda>acc n. acc @ g n) acc ns) = set acc \<union> (\<Union>n \<in> set ns. set (g n))"
  by (induction ns arbitrary: acc) auto



lemma set_firedNames:
  "set (firedNames publishDepEvent changedValues s) =
     (fst ` set changedValues \<union> (\<Union>n \<in> fst ` set changedValues. set (publishDepEvent n))) \<inter>
     {fieldName m | m. m \<in> set (formItemsMeta s) \<and> destroyEvaluates s m False}"
  unfolding firedNames_def set_arrayFromSet set_filter set_append set_interactFields
  by auto

lemma destroyed_not_fired:
  assumes d: "distinct (map fieldName (formItemsMeta s))" and m: "m \<in> set (formItemsMeta s)"
    and t: "destroyEvaluates s m True"
  shows "fieldName m \<notin> set (firedNames publishDepEvent changedValues s)"
proof
  assume "fieldName m \<in> set (firedNames publishDepEvent changedValues s)"
  then obtain m' where m': "m' \<in> set (formItemsMeta s)" "destroyEvaluates s m' False"
    "fieldName m' = fieldName m"
    unfolding set_firedNames by auto
  from d m m'(1) m'(3) have "m' = m"
    by (meson distinct_map inj_onD)
  with m'(2) t show False
    by (auto simp: destroyEvaluates_def split: sum.splits)
qed

subsection \<open>Mount effects\<close>







subsection \<open>The rendered field\<close>

lemma widgetPropsGetter_throws_iff:
  "throws (widgetPropsGetter vg entries acc) \<longleftrightarrow> (\<exists>v \<in> snd ` set entries. throws (vg v))"
proof (induction entries arbitrary: acc)
  case Nil
  then show ?case by simp
next
  case (Cons kv entries)
  obtain k v where kv: "kv = (k, v)" by (cases kv)
  show ?case
    using Cons.IH by (cases "vg v") (auto simp: kv)
qed

lemma renderField_destroyed:
  "valueGetterProp P s (destroy (formItemMeta P)) = Inr d \<Longrightarrow> truthy d \<Longrightarrow>
   renderField wait W P s = Inr (None, s)"
  by (simp add: renderField_def)

lemma renderField_destroy_throws:
  "valueGetterProp P s (destroy (formItemMeta P)) = Inl e \<Longrightarrow> renderField wait W P s = Inl e"
  by (simp add: renderField_def)

lemma renderField_shown:
  assumes d: "valueGetterProp P s (destroy (formItemMeta P)) = Inr d" "\<not> truthy d"
    and c: "calcDerivedValue P (fieldName (formItemMeta P)) (valueDerived (formItemMeta P)) s = Inr s1"
    and ok: "\<forall>v \<in> set (deferredProps (formItemMeta P)). \<not> throws (valueGetterProp P s1 v)"
  shows "\<exists>h cprops iprops wprops.
     valueGetterProp P s1 (hiddenOf (formItemMeta P)) = Inr h \<and>
     renderField wait W P s =
       Inr (Some (Element Col cprops [Element FormItem iprops [Element W wprops []]]), s1) \<and>
     map_of cprops ''span'' =
       Some (PVal (Lit (if truthy h then JNum 0
                        else coalesce (getProp (colProps (formItemMeta P)) ''span'') (defaultSpan P)))) \<and>
     map_of iprops ''name'' = Some (PVal (Lit (JStr (fieldName (formItemMeta P))))) \<and>
     map_of iprops ''hidden'' = Some (PVal h)"
proof -
  let ?m = "formItemMeta P"
  let ?vg = "valueGetterProp P s1"
  from ok obtain h l r where h: "?vg (hiddenOf ?m) = Inr h" and l: "?vg (label ?m) = Inr l"
    and r: "?vg (rules ?m) = Inr r"
    by (auto simp: deferredProps_def not_throws_iff)
  from ok have "\<not> throws (widgetPropsGetter ?vg (widgetProps ?m) [])"
    by (auto simp: widgetPropsGetter_throws_iff deferredProps_def)
  then obtain wp where wp: "widgetPropsGetter ?vg (widgetProps ?m) [] = Inr wp"
    by (auto simp: not_throws_iff)
  from ok obtain req where req:
    "(if isUndefined (required ?m) then Inr []
      else bindE (?vg (required ?m)) (\<lambda>q. Inr [(''required'', PVal q)])) = Inr req"
    by (cases "isUndefined (required ?m)") (auto simp: deferredProps_def not_throws_iff)
  have "renderField wait W P s =
     (let stp = getServiceTriggerProps wait P (getFieldsValue s1);
          serviceProps =
            (case propOnBlur stp of None \<Rightarrow> [] | Some h \<Rightarrow> [(''onBlur'', PHandler h)]) @
            (case propOnFocus stp of None \<Rightarrow> [] | Some h \<Rightarrow> [(''onFocus'', PHandler h)]) @
            (case propOnSearch stp of None \<Rightarrow> [] | Some h \<Rightarrow> [(''onSearch'', PHandler h)]);
          span = (if truthy h then JNum 0
                  else coalesce (getProp (colProps ?m) ''span'') (defaultSpan P))
      in Inr (Some
        (Element Col (spread (propsOf (colProps ?m)) [(''span'', PVal (Lit span))])
          [Element FormItem
             ([(''name'', PVal (Lit (JStr (fieldName ?m)))),
               (''initialValue'', PVal (Lit (initialValue ?m))),
               (''tooltip'', PVal (Lit (tooltip ?m))),
               (''label'', PVal l),
               (''rules'', PVal r),
               (''hidden'', PVal h),
               (''colon'', PVal (Lit (colon ?m))),
               (''extra'', PVal (Lit (extra ?m))),
               (''labelAlign'', PVal (Lit (labelAlign ?m))),
               (''trigger'', PVal (Lit (trigger ?m))),
               (''valuePropName'', PVal (Lit (valuePropName ?m)))] @
              req @
              [(''noStyle'', PVal (Lit (noStyle ?m))),
               (''validateFirst'', PVal (Lit (JBool True)))])
             [Element W (spread wp serviceProps) []]]),
        s1))"
    unfolding renderField_def Let_def
    by (simp only: d c h l r wp req bindE_simps if_False)
  then show ?thesis
    using h by (simp add: Let_def map_of_spread_last)
qed

lemma renderField_throws:
  assumes d: "valueGetterProp P s (destroy (formItemMeta P)) = Inr d" "\<not> truthy d"
    and c: "calcDerivedValue P (fieldName (formItemMeta P)) (valueDerived (formItemMeta P)) s = Inr s1"
    and bad: "\<exists>v \<in> set (deferredProps (formItemMeta P)). throws (valueGetterProp P s1 v)"
  shows "throws (renderField wait W P s)"
proof -
  let ?m = "formItemMeta P"
  let ?vg = "valueGetterProp P s1"
  from bad have cases: "throws (?vg (hiddenOf ?m)) \<or> throws (?vg (label ?m)) \<or>
      throws (?vg (rules ?m)) \<or> (\<not> isUndefined (required ?m) \<and> throws (?vg (required ?m))) \<or>
      throws (widgetPropsGetter ?vg (widgetProps ?m) [])"
    by (auto simp: deferredProps_def widgetPropsGetter_throws_iff split: if_splits)
  show ?thesis
    unfolding renderField_def Let_def
    using cases
    by (simp only: d c bindE_simps if_False throws_bindE)
      (auto simp: throws_bindE not_throws_iff [symmetric])
qed

subsection \<open>Search handlers\<close>

lemma propOnSearch_foldl:
  fixes step :: "ServiceTriggerProps \<Rightarrow> ServiceTriggerEnum \<Rightarrow> ServiceTriggerProps"
  assumes step: "\<And>p t. propOnSearch (step p t) = (if t = onSearch then Some H else propOnSearch p)"
  shows "propOnSearch (foldl step p ts) = (if onSearch \<in> set ts then Some H else propOnSearch p)"
  by (induction ts arbitrary: p) (auto simp: step)

lemma searchCalls_eq:
  "searchCalls wait P fd invs =
     (if onSearch \<in> set (servicesTriggers (formItemMeta P))
      then Some ((if truthyJson (debounceSearch P)
                  then debounce wait (serviceHandler (fieldName (formItemMeta P)) onSearch fd)
                  else serviceHandler (fieldName (formItemMeta P)) onSearch fd) invs)
      else None)"
  unfolding searchCalls_def getServiceTriggerProps_def
  by (subst propOnSearch_foldl
        [where H = "if truthyJson (debounceSearch P)
                  then debounce wait (serviceHandler (fieldName (formItemMeta P)) onSearch fd)
                  else serviceHandler (fieldName (formItemMeta P)) onSearch fd"])
     (simp_all add: Let_def)

lemma trailing_burst:
  "burst wait invs \<Longrightarrow> invs \<noteq> [] \<Longrightarrow>
   trailing wait invs = [(fst (last invs) + wait, snd (last invs))]"
  by (induction wait invs rule: trailing.induct) auto

subsection \<open>Resolving a property\<close>

text \<open>
  C3, as stated, fails: the scope has no key \<open>extraData\<close>. A function that reads
  \<open>scope.extraData\<close> gets \<open>undefined\<close> although the extra data is not empty; the extra
  data is reached as \<open>scope.extraDataRef.current\<close>.
\<close>

theorem scope_has_no_extraData:
  "extraData exampleState = [(''token'', JStr ''abc'')] \<and>
   valueGetter exampleState (Fn (\<lambda>scope. Inr (Lit (scopeProp scope ''extraData'')))) =
     Inr (Lit JUndefined) \<and>
   valueGetter exampleState (Fn (\<lambda>scope. Inr (Lit (JObj (current (extraDataRef scope)))))) =
     Inr (Lit (JObj [(''token'', JStr ''abc'')]))"
  by (simp add: exampleState_def valueGetter_def scopeProp_def getFieldsValue_def
      theExtraDataRef_def)

text \<open>
  C3, amended. \<open>valueGetter\<close> returns a candidate that is not a function unchanged, and
  for a function returns what the function returns on the scope
  \<open>{ formData, extraDataRef }\<close>: \<open>formData\<close> is the form's current values and
  \<open>extraDataRef\<close> is the reference whose \<open>current\<close> is the extra data; the scope has
  no key \<open>extraData\<close>.
\<close>

theorem valueGetter_resolves:
  "(\<not> isFunction v \<longrightarrow> valueGetter s v = Inr v) \<and>
   valueGetter s (Fn f) =
     f \<lparr>formData = fieldsValue s, extraDataRef = \<lparr>current = extraData s\<rparr>\<rparr> \<and>
   scopeProp \<lparr>formData = fieldsValue s, extraDataRef = \<lparr>current = extraData s\<rparr>\<rparr>
     ''extraData'' = JUndefined"
  by (cases v) (simp_all add: valueGetter_def getFieldsValue_def theExtraDataRef_def scopeProp_def)

theorem valueGetter_resolves_witness:
  "\<not> isFunction (Lit (JNum 7)) \<and>
   valueGetter exampleState (Lit (JNum 7)) = Inr (Lit (JNum 7)) \<and>
   valueGetter exampleState
     (Fn (\<lambda>scope. Inr (Lit (JArr [getProp (JObj (formData scope)) ''country'',
                                    getProp (JObj (current (extraDataRef scope))) ''token''])))) =
     Inr (Lit (JArr [JStr ''DE'', JStr ''abc'']))"
proof -
  have h: "\<not> isFunction (Lit (JNum 7))"
    by simp
  note c = valueGetter_resolves
    [where v = "Lit (JNum 7)" and s = exampleState
       and f = "\<lambda>scope. Inr (Lit (JArr [getProp (JObj (formData scope)) ''country'',
                                    getProp (JObj (current (extraDataRef scope))) ''token'']))"]
  from c [THEN conjunct2, THEN conjunct1]
  have r: "valueGetter exampleState
     (Fn (\<lambda>scope. Inr (Lit (JArr [getProp (JObj (formData scope)) ''country'',
                                    getProp (JObj (current (extraDataRef scope))) ''token''])))) =
     Inr (Lit (JArr [JStr ''DE'', JStr ''abc'']))"
    by (simp add: exampleState_def)
  show ?thesis
    by (rule conjI [OF h conjI [OF c [THEN conjunct1, THEN mp, OF h] r]])
qed

subsection \<open>Value changes\<close>



subsection \<open>New default extra data\<close>

text \<open>
  C9, as stated, fails: a key of the previous extra data that the new defaults do not
  have is still there after the update.
\<close>

theorem defaultExtraData_keeps_old_key:
  "map_of (extraData exampleState) ''token'' = Some (JStr ''abc'') \<and>
   map_of (ownProps (Some [(''lang'', JStr ''en'')])) ''token'' = None \<and>
   map_of (extraData (defaultExtraDataEffect (Some [(''lang'', JStr ''en'')]) exampleState))
     ''token'' = Some (JStr ''abc'')"
  by (simp add: exampleState_def defaultExtraDataEffect_def updateExtraData_def ownProps_def
      spread_def)

text \<open>
  C9, amended. When the caller supplies new default extra data, the extra data becomes
  the previous extra data overridden by the new defaults: a key of the new defaults has
  its new value, and every other key keeps its previous value.
\<close>

theorem defaultExtraData_merges:
  assumes "distinct (map fst (ownProps d))"
  shows "map_of (extraData (defaultExtraDataEffect d s)) =
           map_of (extraData s) ++ map_of (ownProps d)"
  using assms by (simp add: defaultExtraDataEffect_def updateExtraData_def map_of_spread)

theorem defaultExtraData_merges_witness:
  "distinct (map fst (ownProps (Some [(''lang'', JStr ''en'')]))) \<and>
   map_of (extraData (defaultExtraDataEffect (Some [(''lang'', JStr ''en'')]) exampleState)) =
     map_of (extraData exampleState) ++ map_of (ownProps (Some [(''lang'', JStr ''en'')]))"
proof -
  have h: "distinct (map fst (ownProps (Some [(''lang'', JStr ''en'')])))"
    by (simp add: ownProps_def)
  show ?thesis
    by (rule conjI [OF h defaultExtraData_merges [OF h, of exampleState]])
qed

subsection \<open>Rendering the fields of a configuration\<close>





lemma loadConfig_render_throws:
  "renderFormItems ctx (transform (configFieldList jsonConfig))
     (configEffect transform defaults jsonConfig s) = Inl e \<Longrightarrow>
   loadConfig ctx transform defaults jsonConfig s = Inl e"
  by (simp add: loadConfig_def mountFormItems_def configEffect_def updateExtraData_def Let_def)

subsection \<open>Mounting\<close>




text \<open>
  C10. A field whose \<open>servicesTriggers\<close> includes \<open>onMount\<close> and whose \<open>destroy\<close>
  expression evaluates true: its function child renders nothing, its name is not among
  those that get the \<open>onChange\<close> event, and still its mount effect publishes the
  \<open>onMount\<close> event, once.
\<close>

theorem mount_event_despite_destroy:
  assumes mt: "onMount \<in> set (servicesTriggers (formItemMeta P))"
    and vg: "valueGetterProp P = valueGetter"
    and dt: "destroyEvaluates s (formItemMeta P) True"
  shows "renderField wait W P s = Inr (None, s) \<and>
     mountEffect (formItemMeta P) s =
       s\<lparr>calls := calls s @
          [PublishServiceEvent (fieldName (formItemMeta P)) onMount (getFieldsValue s) None]\<rparr> \<and>
     (formItemMeta P \<in> set (formItemsMeta s) \<and> distinct (map fieldName (formItemsMeta s)) \<longrightarrow>
        fieldName (formItemMeta P) \<notin> set (firedNames publishDepEvent changedValues s))"
proof -
  from dt obtain d where "valueGetterProp P s (destroy (formItemMeta P)) = Inr d" "truthy d"
    by (auto simp: destroyEvaluates_def vg split: sum.splits)
  then have "renderField wait W P s = Inr (None, s)"
    by (rule renderField_destroyed)
  moreover have "mountEffect (formItemMeta P) s =
       s\<lparr>calls := calls s @
          [PublishServiceEvent (fieldName (formItemMeta P)) onMount (getFieldsValue s) None]\<rparr>"
    using mt by (simp add: mountEffect_def publishServiceEvent_def)
  ultimately show ?thesis
    using destroyed_not_fired [OF _ _ dt] by blast
qed

theorem mount_event_despite_destroy_witness:
  "onMount \<in> set (servicesTriggers (formItemMeta (exampleProps destroyedCity))) \<and>
   valueGetterProp (exampleProps destroyedCity) = valueGetter \<and>
   destroyEvaluates (exampleState\<lparr>formItemsMeta := [plainField ''country'', destroyedCity]\<rparr>)
     (formItemMeta (exampleProps destroyedCity)) True \<and>
   (formItemMeta (exampleProps destroyedCity) \<in>
      set (formItemsMeta (exampleState\<lparr>formItemsMeta := [plainField ''country'', destroyedCity]\<rparr>)) \<and>
    distinct (map fieldName
      (formItemsMeta (exampleState\<lparr>formItemsMeta := [plainField ''country'', destroyedCity]\<rparr>)))) \<and>
   renderField 300 (Implementation ''Input'') (exampleProps destroyedCity)
     (exampleState\<lparr>formItemsMeta := [plainField ''country'', destroyedCity]\<rparr>) =
     Inr (None, exampleState\<lparr>formItemsMeta := [plainField ''country'', destroyedCity]\<rparr>) \<and>
   mountEffect (formItemMeta (exampleProps destroyedCity))
     (exampleState\<lparr>formItemsMeta := [plainField ''country'', destroyedCity]\<rparr>) =
     (exampleState\<lparr>formItemsMeta := [plainField ''country'', destroyedCity]\<rparr>)
       \<lparr>calls := calls (exampleState\<lparr>formItemsMeta := [plainField ''country'', destroyedCity]\<rparr>) @
          [PublishServiceEvent (fieldName (formItemMeta (exampleProps destroyedCity))) onMount
             (getFieldsValue (exampleState\<lparr>formItemsMeta := [plainField ''country'', destroyedCity]\<rparr>))
             None]\<rparr> \<and>
   fieldName (formItemMeta (exampleProps destroyedCity)) \<notin>
     set (firedNames exampleDeps [(''country'', JStr ''DE'')]
            (exampleState\<lparr>formItemsMeta := [plainField ''country'', destroyedCity]\<rparr>))"
proof -
  let ?s = "exampleState\<lparr>formItemsMeta := [plainField ''country'', destroyedCity]\<rparr>"
  let ?P = "exampleProps destroyedCity"
  have h1: "onMount \<in> set (servicesTriggers (formItemMeta ?P))"
    by (simp add: exampleProps_def destroyedCity_def plainField_def)
  have h2: "valueGetterProp ?P = valueGetter"
    by (simp add: exampleProps_def)
  have h3: "destroyEvaluates ?s (formItemMeta ?P) True"
    by (simp add: exampleProps_def destroyedCity_def plainField_def destroyEvaluates_def
        exampleState_def valueGetter_def countryIs_def getFieldsValue_def)
  have h4: "formItemMeta ?P \<in> set (formItemsMeta ?s) \<and> distinct (map fieldName (formItemsMeta ?s))"
    by (simp add: exampleProps_def destroyedCity_def plainField_def)
  note c = mount_event_despite_destroy
    [OF h1 h2 h3, of 300 "Implementation ''Input''" exampleDeps "[(''country'', JStr ''DE'')]"]
  show ?thesis
    by (rule conjI [OF h1 conjI [OF h2 conjI [OF h3 conjI [OF h4
          conjI [OF c [THEN conjunct1]
            conjI [OF c [THEN conjunct2, THEN conjunct1]
              c [THEN conjunct2, THEN conjunct2, THEN mp, OF h4]]]]]]])
qed

subsection \<open>Rendering a field\<close>

text \<open>
  C5. A field whose \<open>destroy\<close> expression evaluates true is not rendered: the function
  child returns \<open>null\<close>. A field whose \<open>destroy\<close> evaluates false and whose \<open>hidden\<close>
  expression evaluates true is rendered, when its other properties evaluate, as a
  column of span 0 around a form item of the field's name whose \<open>hidden\<close> prop is that
  true value.
\<close>

theorem destroy_removes_hidden_hides:
  "(valueGetterProp P s (destroy (formItemMeta P)) = Inr d \<and> truthy d \<longrightarrow>
      renderField wait W P s = Inr (None, s)) \<and>
   (valueGetterProp P s (destroy (formItemMeta P)) = Inr d \<and> \<not> truthy d \<and>
    calcDerivedValue P (fieldName (formItemMeta P)) (valueDerived (formItemMeta P)) s = Inr s1 \<and>
    (\<forall>v \<in> set (deferredProps (formItemMeta P)). \<not> throws (valueGetterProp P s1 v)) \<and>
    valueGetterProp P s1 (hiddenOf (formItemMeta P)) = Inr h \<and> truthy h \<longrightarrow>
      (\<exists>cprops iprops wprops.
         renderField wait W P s =
           Inr (Some (Element Col cprops [Element FormItem iprops [Element W wprops []]]), s1) \<and>
         map_of cprops ''span'' = Some (PVal (Lit (JNum 0))) \<and>
         map_of iprops ''name'' = Some (PVal (Lit (JStr (fieldName (formItemMeta P))))) \<and>
         map_of iprops ''hidden'' = Some (PVal h)))"
proof (intro conjI impI)
  assume "valueGetterProp P s (destroy (formItemMeta P)) = Inr d \<and> truthy d"
  then show "renderField wait W P s = Inr (None, s)"
    by (simp add: renderField_destroyed)
next
  assume a: "valueGetterProp P s (destroy (formItemMeta P)) = Inr d \<and> \<not> truthy d \<and>
    calcDerivedValue P (fieldName (formItemMeta P)) (valueDerived (formItemMeta P)) s = Inr s1 \<and>
    (\<forall>v \<in> set (deferredProps (formItemMeta P)). \<not> throws (valueGetterProp P s1 v)) \<and>
    valueGetterProp P s1 (hiddenOf (formItemMeta P)) = Inr h \<and> truthy h"
  then have d: "valueGetterProp P s (destroy (formItemMeta P)) = Inr d" "\<not> truthy d"
    and c: "calcDerivedValue P (fieldName (formItemMeta P)) (valueDerived (formItemMeta P)) s = Inr s1"
    and ok: "\<forall>v \<in> set (deferredProps (formItemMeta P)). \<not> throws (valueGetterProp P s1 v)"
    and h: "valueGetterProp P s1 (hiddenOf (formItemMeta P)) = Inr h" "truthy h"
    by simp_all
  from renderField_shown [OF d c ok, of wait W] h
  show "\<exists>cprops iprops wprops.
         renderField wait W P s =
           Inr (Some (Element Col cprops [Element FormItem iprops [Element W wprops []]]), s1) \<and>
         map_of cprops ''span'' = Some (PVal (Lit (JNum 0))) \<and>
         map_of iprops ''name'' = Some (PVal (Lit (JStr (fieldName (formItemMeta P))))) \<and>
         map_of iprops ''hidden'' = Some (PVal h)"
    by auto
qed

theorem destroy_removes_hidden_hides_witness:
  "(valueGetterProp (exampleProps destroyedCity) exampleState
      (destroy (formItemMeta (exampleProps destroyedCity))) = Inr (Lit (JBool True)) \<and>
    truthy (Lit (JBool True))) \<and>
   renderField 300 (Implementation ''Input'') (exampleProps destroyedCity) exampleState =
     Inr (None, exampleState) \<and>
   (valueGetterProp (exampleProps hiddenCity) exampleState
      (destroy (formItemMeta (exampleProps hiddenCity))) = Inr (Lit (JBool False)) \<and>
    \<not> truthy (Lit (JBool False)) \<and>
    calcDerivedValue (exampleProps hiddenCity) (fieldName (formItemMeta (exampleProps hiddenCity)))
      (valueDerived (formItemMeta (exampleProps hiddenCity))) exampleState = Inr exampleState \<and>
    list_all (\<lambda>v. \<not> throws (valueGetterProp (exampleProps hiddenCity) exampleState v))
      (deferredProps (formItemMeta (exampleProps hiddenCity))) \<and>
    valueGetterProp (exampleProps hiddenCity) exampleState
      (hiddenOf (formItemMeta (exampleProps hiddenCity))) = Inr (Lit (JBool True)) \<and>
    truthy (Lit (JBool True))) \<and>
   (\<exists>cprops iprops wprops.
      renderField 300 (Implementation ''Input'') (exampleProps hiddenCity) exampleState =
        Inr (Some (Element Col cprops
               [Element FormItem iprops [Element (Implementation ''Input'') wprops []]]),
             exampleState) \<and>
      map_of cprops ''span'' = Some (PVal (Lit (JNum 0))) \<and>
      map_of iprops ''name'' =
        Some (PVal (Lit (JStr (fieldName (formItemMeta (exampleProps hiddenCity)))))) \<and>
      map_of iprops ''hidden'' = Some (PVal (Lit (JBool True))))"
proof -
  have h1: "valueGetterProp (exampleProps destroyedCity) exampleState
      (destroy (formItemMeta (exampleProps destroyedCity))) = Inr (Lit (JBool True)) \<and>
    truthy (Lit (JBool True))"
    by (simp add: exampleProps_def destroyedCity_def plainField_def countryIs_def
        exampleState_def valueGetter_def getFieldsValue_def)
  have h2: "valueGetterProp (exampleProps hiddenCity) exampleState
      (destroy (formItemMeta (exampleProps hiddenCity))) = Inr (Lit (JBool False)) \<and>
    \<not> truthy (Lit (JBool False)) \<and>
    calcDerivedValue (exampleProps hiddenCity) (fieldName (formItemMeta (exampleProps hiddenCity)))
      (valueDerived (formItemMeta (exampleProps hiddenCity))) exampleState = Inr exampleState \<and>
    (\<forall>v \<in> set (deferredProps (formItemMeta (exampleProps hiddenCity))).
       \<not> throws (valueGetterProp (exampleProps hiddenCity) exampleState v)) \<and>
    valueGetterProp (exampleProps hiddenCity) exampleState
      (hiddenOf (formItemMeta (exampleProps hiddenCity))) = Inr (Lit (JBool True)) \<and>
    truthy (Lit (JBool True))"
    by (simp add: exampleProps_def hiddenCity_def plainField_def countryIs_def
        exampleState_def valueGetter_def getFieldsValue_def deferredProps_def hiddenOf_def
        isUndefined_def)
  note c1 = destroy_removes_hidden_hides
    [where P = "exampleProps destroyedCity" and s = exampleState and d = "Lit (JBool True)"
       and wait = 300 and W = "Implementation ''Input''", THEN conjunct1, THEN mp, OF h1]
  note c2 = destroy_removes_hidden_hides
    [where P = "exampleProps hiddenCity" and s = exampleState and d = "Lit (JBool False)"
       and ?s1.0 = exampleState and h = "Lit (JBool True)"
       and wait = 300 and W = "Implementation ''Input''", THEN conjunct2, THEN mp, OF h2]
  have h2': "valueGetterProp (exampleProps hiddenCity) exampleState
      (destroy (formItemMeta (exampleProps hiddenCity))) = Inr (Lit (JBool False)) \<and>
    \<not> truthy (Lit (JBool False)) \<and>
    calcDerivedValue (exampleProps hiddenCity) (fieldName (formItemMeta (exampleProps hiddenCity)))
      (valueDerived (formItemMeta (exampleProps hiddenCity))) exampleState = Inr exampleState \<and>
    list_all (\<lambda>v. \<not> throws (valueGetterProp (exampleProps hiddenCity) exampleState v))
      (deferredProps (formItemMeta (exampleProps hiddenCity))) \<and>
    valueGetterProp (exampleProps hiddenCity) exampleState
      (hiddenOf (formItemMeta (exampleProps hiddenCity))) = Inr (Lit (JBool True)) \<and>
    truthy (Lit (JBool True))"
    unfolding list_all_iff by (rule h2)
  show ?thesis
    by (rule conjI [OF h1 conjI [OF c1 conjI [OF h2' c2]]])
qed

text \<open>
  C4, as stated, fails: a \<open>label\<close> expression that throws is not caught where it is
  evaluated. \<open>valueGetter\<close> passes the exception on, and the rendering of the field ends
  with it instead of leaving out the label.
\<close>

theorem expression_error_not_caught:
  "valueGetter exampleState (label brokenCity) = Inl (Thrown ''boom'') \<and>
   renderField 300 (Implementation ''Input'') (exampleProps brokenCity) exampleState =
     Inl (Thrown ''boom'') \<and>
   FormItemWrapper 300 exampleWidgets (exampleProps brokenCity) exampleState =
     Inl (Thrown ''boom'')"
  by (simp add: valueGetter_def brokenCity_def plainField_def renderField_def exampleProps_def
      exampleState_def hiddenOf_def FormItemWrapper_def Widget_def exampleWidgets_def)

text \<open>
  C4, amended. If the expression of a deferred property throws during evaluation, the
  error is not caught at the point of evaluation: \<open>valueGetter\<close> returns the exception
  of the function, and the function child that renders the field ends with an exception,
  whether the property is \<open>destroy\<close> or one of those evaluated after it; no property
  is skipped.
\<close>

theorem expression_error_fails_field:
  "(f \<lparr>formData = getFieldsValue s, extraDataRef = theExtraDataRef s\<rparr> = Inl e \<longrightarrow>
      valueGetter s (Fn f) = Inl e) \<and>
   (valueGetterProp P s (destroy (formItemMeta P)) = Inl e \<longrightarrow>
      renderField wait W P s = Inl e) \<and>
   (valueGetterProp P s (destroy (formItemMeta P)) = Inr d \<and> \<not> truthy d \<and>
    calcDerivedValue P (fieldName (formItemMeta P)) (valueDerived (formItemMeta P)) s = Inr s1 \<and>
    (\<exists>v \<in> set (deferredProps (formItemMeta P)). throws (valueGetterProp P s1 v)) \<longrightarrow>
      throws (renderField wait W P s))"
proof (intro conjI impI)
  assume "f \<lparr>formData = getFieldsValue s, extraDataRef = theExtraDataRef s\<rparr> = Inl e"
  then show "valueGetter s (Fn f) = Inl e"
    by (simp add: valueGetter_def)
next
  assume "valueGetterProp P s (destroy (formItemMeta P)) = Inl e"
  then show "renderField wait W P s = Inl e"
    by (rule renderField_destroy_throws)
next
  assume "valueGetterProp P s (destroy (formItemMeta P)) = Inr d \<and> \<not> truthy d \<and>
    calcDerivedValue P (fieldName (formItemMeta P)) (valueDerived (formItemMeta P)) s = Inr s1 \<and>
    (\<exists>v \<in> set (deferredProps (formItemMeta P)). throws (valueGetterProp P s1 v))"
  then show "throws (renderField wait W P s)"
    using renderField_throws [of P s d s1 wait W] by blast
qed

theorem expression_error_fails_field_witness:
  "(\<lambda>sc. Inl (Thrown ''boom''))
      \<lparr>formData = getFieldsValue exampleState, extraDataRef = theExtraDataRef exampleState\<rparr> =
      (Inl (Thrown ''boom'') :: error + jsval) \<and>
   valueGetter exampleState (Fn (\<lambda>sc. Inl (Thrown ''boom''))) = Inl (Thrown ''boom'') \<and>
   valueGetterProp (exampleProps ((plainField ''city'')\<lparr>destroy := label brokenCity\<rparr>)) exampleState
      (destroy (formItemMeta (exampleProps ((plainField ''city'')\<lparr>destroy := label brokenCity\<rparr>)))) =
      Inl (Thrown ''boom'') \<and>
   renderField 300 (Implementation ''Input'')
      (exampleProps ((plainField ''city'')\<lparr>destroy := label brokenCity\<rparr>)) exampleState =
      Inl (Thrown ''boom'') \<and>
   (valueGetterProp (exampleProps brokenCity) exampleState
      (destroy (formItemMeta (exampleProps brokenCity))) = Inr (Lit (JBool False)) \<and>
    \<not> truthy (Lit (JBool False)) \<and>
    calcDerivedValue (exampleProps brokenCity) (fieldName (formItemMeta (exampleProps brokenCity)))
      (valueDerived (formItemMeta (exampleProps brokenCity))) exampleState = Inr exampleState \<and>
    (\<exists>v \<in> set (deferredProps (formItemMeta (exampleProps brokenCity))).
       throws (valueGetterProp (exampleProps brokenCity) exampleState v))) \<and>
   throws (renderField 300 (Implementation ''Input'') (exampleProps brokenCity) exampleState)"
proof -
  have h1: "(\<lambda>sc. Inl (Thrown ''boom''))
      \<lparr>formData = getFieldsValue exampleState, extraDataRef = theExtraDataRef exampleState\<rparr> =
      (Inl (Thrown ''boom'') :: error + jsval)"
    by simp
  have h2: "valueGetterProp (exampleProps ((plainField ''city'')\<lparr>destroy := label brokenCity\<rparr>))
      exampleState
      (destroy (formItemMeta (exampleProps ((plainField ''city'')\<lparr>destroy := label brokenCity\<rparr>)))) =
      Inl (Thrown ''boom'')"
    by (simp add: exampleProps_def brokenCity_def plainField_def valueGetter_def)
  have h3: "valueGetterProp (exampleProps brokenCity) exampleState
      (destroy (formItemMeta (exampleProps brokenCity))) = Inr (Lit (JBool False)) \<and>
    \<not> truthy (Lit (JBool False)) \<and>
    calcDerivedValue (exampleProps brokenCity) (fieldName (formItemMeta (exampleProps brokenCity)))
      (valueDerived (formItemMeta (exampleProps brokenCity))) exampleState = Inr exampleState \<and>
    (\<exists>v \<in> set (deferredProps (formItemMeta (exampleProps brokenCity))).
       throws (valueGetterProp (exampleProps brokenCity) exampleState v))"
    by (simp add: exampleProps_def brokenCity_def plainField_def valueGetter_def
        deferredProps_def hiddenOf_def isUndefined_def)
  note c1 = expression_error_fails_field
    [where f = "\<lambda>sc. Inl (Thrown ''boom'')" and s = exampleState and e = "Thrown ''boom''",
     THEN conjunct1, THEN mp, OF h1]
  note c2 = expression_error_fails_field
    [where P = "exampleProps ((plainField ''city'')\<lparr>destroy := label brokenCity\<rparr>)"
       and s = exampleState and e = "Thrown ''boom''" and wait = 300
       and W = "Implementation ''Input''",
     THEN conjunct2, THEN conjunct1, THEN mp, OF h2]
  note c3 = expression_error_fails_field
    [where P = "exampleProps brokenCity" and s = exampleState and d = "Lit (JBool False)"
       and ?s1.0 = exampleState and wait = 300 and W = "Implementation ''Input''",
     THEN conjunct2, THEN conjunct2, THEN mp, OF h3]
  show ?thesis
    by (rule conjI [OF h1 conjI [OF c1 conjI [OF h2 conjI [OF c2 conjI [OF h3 c3]]]]])
qed

subsection \<open>Widgets\<close>

text \<open>
  C7. When the caller's lookup answers \<open>null\<close> or \<open>undefined\<close> for a widget identifier
  and the internal registry has no implementation for it, \<open>Widget\<close> is the placeholder
  \<open>NotFoundWidget\<close>, one warning naming the identifier is emitted, nothing is thrown,
  and the field is rendered with the placeholder as its widget.
\<close>

theorem widget_not_found:
  assumes "getWidgets P (widget (formItemMeta P)) = Null \<or>
           getWidgets P (widget (formItemMeta P)) = Undefined"
    and "internalWidgets (widget (formItemMeta P)) = None"
  shows "Widget (getWidgets P) internalWidgets (widget (formItemMeta P)) =
           (NotFoundWidget,
            [Warning (''widget named `'' @ widget (formItemMeta P) @ ''` is not found!'')
               ''Widget'']) \<and>
         FormItemWrapper wait internalWidgets P s =
           bindE (renderField wait NotFoundWidget P
                    (s\<lparr>calls := calls s @
                       [Warning (''widget named `'' @ widget (formItemMeta P) @ ''` is not found!'')
                          ''Widget'']\<rparr>))
             (\<lambda>(child, s1).
                Inr (Element FormItem
                       [(''noStyle'', PVal (Lit (JBool True))),
                        (''shouldUpdate'', PVal (Lit (JBool True)))]
                       (case child of None \<Rightarrow> [] | Some c \<Rightarrow> [c]),
                     s1))"
  using assms by (auto simp: Widget_def FormItemWrapper_def)

theorem widget_not_found_witness:
  "(getWidgets (exampleProps unknownCity) (widget (formItemMeta (exampleProps unknownCity))) = Null \<or>
    getWidgets (exampleProps unknownCity) (widget (formItemMeta (exampleProps unknownCity))) =
      Undefined) \<and>
   exampleWidgets (widget (formItemMeta (exampleProps unknownCity))) = None \<and>
   Widget (getWidgets (exampleProps unknownCity)) exampleWidgets ''cascader'' =
     (NotFoundWidget, [Warning ''widget named `cascader` is not found!'' ''Widget'']) \<and>
   (\<exists>cprops iprops wprops.
      FormItemWrapper 300 exampleWidgets (exampleProps unknownCity) exampleState =
        Inr (Element FormItem
               [(''noStyle'', PVal (Lit (JBool True))),
                (''shouldUpdate'', PVal (Lit (JBool True)))]
               [Element Col cprops [Element FormItem iprops [Element NotFoundWidget wprops []]]],
             exampleState\<lparr>calls :=
               [Warning ''widget named `cascader` is not found!'' ''Widget'']\<rparr>))"
proof -
  have h1: "getWidgets (exampleProps unknownCity) (widget (formItemMeta (exampleProps unknownCity))) =
      Null \<or>
    getWidgets (exampleProps unknownCity) (widget (formItemMeta (exampleProps unknownCity))) =
      Undefined"
    by (simp add: exampleProps_def)
  have h2: "exampleWidgets (widget (formItemMeta (exampleProps unknownCity))) = None"
    by (simp add: exampleProps_def unknownCity_def plainField_def exampleWidgets_def)
  have w: "widget (formItemMeta (exampleProps unknownCity)) = ''cascader''"
    by (simp add: exampleProps_def unknownCity_def plainField_def)
  have r: "renderField 300 NotFoundWidget (exampleProps unknownCity)
      (exampleState\<lparr>calls := calls exampleState @
          [Warning (''widget named `'' @ ''cascader'' @ ''` is not found!'') ''Widget'']\<rparr>) =
     Inr (Some (Element Col [(''span'', PVal (Lit (JNum 24)))]
            [Element FormItem
               [(''name'', PVal (Lit (JStr ''city''))),
                (''initialValue'', PVal (Lit JUndefined)),
                (''tooltip'', PVal (Lit JUndefined)),
                (''label'', PVal (Lit (JStr ''city''))),
                (''rules'', PVal (Lit (JArr []))),
                (''hidden'', PVal (Lit (JBool False))),
                (''colon'', PVal (Lit JUndefined)),
                (''extra'', PVal (Lit JUndefined)),
                (''labelAlign'', PVal (Lit JUndefined)),
                (''trigger'', PVal (Lit JUndefined)),
                (''valuePropName'', PVal (Lit JUndefined)),
                (''noStyle'', PVal (Lit JUndefined)),
                (''validateFirst'', PVal (Lit (JBool True)))]
               [Element NotFoundWidget [] []]]),
          exampleState\<lparr>calls := [Warning ''widget named `cascader` is not found!'' ''Widget'']\<rparr>)"
    by (simp add: renderField_def exampleProps_def unknownCity_def plainField_def
        exampleState_def valueGetter_def hiddenOf_def isUndefined_def getServiceTriggerProps_def
        spread_def propsOf_def coalesce_def)
  from widget_not_found
    [where P = "exampleProps unknownCity" and internalWidgets = exampleWidgets and wait = 300
       and s = exampleState, OF h1 h2]
  have c: "Widget (getWidgets (exampleProps unknownCity)) exampleWidgets ''cascader'' =
     (NotFoundWidget, [Warning ''widget named `cascader` is not found!'' ''Widget'']) \<and>
   (\<exists>cprops iprops wprops.
      FormItemWrapper 300 exampleWidgets (exampleProps unknownCity) exampleState =
        Inr (Element FormItem
               [(''noStyle'', PVal (Lit (JBool True))),
                (''shouldUpdate'', PVal (Lit (JBool True)))]
               [Element Col cprops [Element FormItem iprops [Element NotFoundWidget wprops []]]],
             exampleState\<lparr>calls :=
               [Warning ''widget named `cascader` is not found!'' ''Widget'']\<rparr>))"
    unfolding w r by simp
  show ?thesis
    by (rule conjI [OF h1 conjI [OF h2 c]])
qed

subsection \<open>Search\<close>

text \<open>
  C8, as stated, fails: without the option \<open>debounceSearch\<close> (the default), two search
  invocations 50 ms apart, within a window of 300 ms, make two calls of
  \<open>publishServiceEvent\<close>.
\<close>

theorem search_not_debounced_by_default:
  "onSearch \<in> set (servicesTriggers (formItemMeta (exampleProps searchCity))) \<and>
   burst 300 [(0, [JStr ''b'']), (50, [JStr ''be''])] \<and>
   searchCalls 300 (exampleProps searchCity) [] [(0, [JStr ''b'']), (50, [JStr ''be''])] =
     Some [(0, PublishServiceEvent ''city'' onSearch [] (Some [JStr ''b''])),
           (50, PublishServiceEvent ''city'' onSearch [] (Some [JStr ''be'']))]"
  by (simp add: searchCalls_def getServiceTriggerProps_def exampleProps_def searchCity_def
      plainField_def serviceHandler_def)

text \<open>
  C8, amended. For a field with an \<open>onSearch\<close> trigger: when the option
  \<open>debounceSearch\<close> is truthy, the search handler of a rendered field turns a burst of
  invocations into one trailing call of \<open>publishServiceEvent\<close>, made the delay after the
  last invocation and with its arguments; when the option is falsy or absent, every
  invocation makes one call at once.
\<close>

theorem search_debounce_gated:
  assumes "onSearch \<in> set (servicesTriggers (formItemMeta P))"
  shows "(\<not> truthyJson (debounceSearch P) \<longrightarrow>
            searchCalls wait P fd invs =
              Some (map (\<lambda>(t, args).
                      (t, PublishServiceEvent (fieldName (formItemMeta P)) onSearch fd (Some args)))
                    invs)) \<and>
         (truthyJson (debounceSearch P) \<and> invs \<noteq> [] \<and> burst wait invs \<longrightarrow>
            searchCalls wait P fd invs =
              Some [(fst (last invs) + wait,
                     PublishServiceEvent (fieldName (formItemMeta P)) onSearch fd
                       (Some (snd (last invs))))])"
  using assms
  by (auto simp: searchCalls_eq serviceHandler_def debounce_def trailing_burst)

theorem search_debounce_gated_witness:
  "onSearch \<in> set (servicesTriggers
      (formItemMeta ((exampleProps searchCity)\<lparr>debounceSearch := JBool True\<rparr>))) \<and>
   (truthyJson (debounceSearch ((exampleProps searchCity)\<lparr>debounceSearch := JBool True\<rparr>)) \<and>
    ([(0, [JStr ''b'']), (50, [JStr ''be''])] :: (nat \<times> json list) list) \<noteq> [] \<and>
    burst 300 [(0, [JStr ''b'']), (50, [JStr ''be''])]) \<and>
   searchCalls 300 ((exampleProps searchCity)\<lparr>debounceSearch := JBool True\<rparr>) []
       [(0, [JStr ''b'']), (50, [JStr ''be''])] =
     Some [(350, PublishServiceEvent ''city'' onSearch [] (Some [JStr ''be'']))] \<and>
   onSearch \<in> set (servicesTriggers (formItemMeta (exampleProps searchCity))) \<and>
   \<not> truthyJson (debounceSearch (exampleProps searchCity)) \<and>
   searchCalls 300 (exampleProps searchCity) [] [(0, [JStr ''b'']), (50, [JStr ''be''])] =
     Some [(0, PublishServiceEvent ''city'' onSearch [] (Some [JStr ''b''])),
           (50, PublishServiceEvent ''city'' onSearch [] (Some [JStr ''be'']))]"
proof -
  let ?P = "(exampleProps searchCity)\<lparr>debounceSearch := JBool True\<rparr>"
  let ?invs = "[(0, [JStr ''b'']), (50, [JStr ''be''])] :: (nat \<times> json list) list"
  have n: "fieldName (formItemMeta ?P) = ''city''" "fieldName (formItemMeta (exampleProps searchCity)) = ''city''"
    by (simp_all add: exampleProps_def searchCity_def plainField_def)
  have h1: "onSearch \<in> set (servicesTriggers (formItemMeta ?P))"
    by (simp add: exampleProps_def searchCity_def plainField_def)
  have h2: "truthyJson (debounceSearch ?P) \<and> ?invs \<noteq> [] \<and> burst 300 ?invs"
    by simp
  have h3: "onSearch \<in> set (servicesTriggers (formItemMeta (exampleProps searchCity)))"
    by (simp add: exampleProps_def searchCity_def plainField_def)
  have h4: "\<not> truthyJson (debounceSearch (exampleProps searchCity))"
    by (simp add: exampleProps_def)
  from search_debounce_gated [OF h1, of 300 "[]" ?invs, THEN conjunct2, THEN mp, OF h2]
  have c1: "searchCalls 300 ?P [] ?invs =
     Some [(350, PublishServiceEvent ''city'' onSearch [] (Some [JStr ''be'']))]"
    by (simp add: n)
  from search_debounce_gated [OF h3, of 300 "[]" ?invs, THEN conjunct1, THEN mp, OF h4]
  have c2: "searchCalls 300 (exampleProps searchCity) [] ?invs =
     Some [(0, PublishServiceEvent ''city'' onSearch [] (Some [JStr ''b''])),
           (50, PublishServiceEvent ''city'' onSearch [] (Some [JStr ''be'']))]"
    by (simp add: n)
  show ?thesis
    by (rule conjI [OF h1 conjI [OF h2 conjI [OF c1 conjI [OF h3 conjI [OF h4 c2]]]]])
qed

subsection \<open>Responses of services\<close>

text \<open>
  C2. For a pair of field name and trigger kind with a bound service: two dispatches in
  sequence get increasing sequence numbers; once the second is issued, a response to
  the first is dropped, whether it arrives before or after the response to the second,
  and the response to the second is applied to the extra-state. In general a response
  whose sequence number is not the latest issued for its pair changes nothing.
\<close>

theorem last_dispatch_wins:
  assumes a: "active bus" and b: "map_of (bindings bus) (n, kind) = Some desc"
  shows "(\<forall>d outcome bus'. seqNo d \<noteq> issuedFor bus' (dispatchPair d) \<longrightarrow>
            busResponse d outcome bus' = bus') \<and>
   (\<exists>d1 bus1 d2 bus2.
     busPublishServiceEvent n kind fd1 args1 bus = (Some d1, bus1) \<and>
     busPublishServiceEvent n kind fd2 args2 bus1 = (Some d2, bus2) \<and>
     seqNo d1 < seqNo d2 \<and> seqNo d2 = issuedFor bus2 (n, kind) \<and>
     busResponse d1 outcome1 bus2 = bus2 \<and>
     busResponse d1 outcome1 (busResponse d2 outcome2 bus2) = busResponse d2 outcome2 bus2 \<and>
     extraState (busResponse d2 (Inr updates) bus2) =
       foldl (\<lambda>ext f. setLoading f False ext) (spread (extraState bus2) updates)
         (targetFields desc))"
proof (rule conjI)
  show "\<forall>d outcome bus'. seqNo d \<noteq> issuedFor bus' (dispatchPair d) \<longrightarrow>
            busResponse d outcome bus' = bus'"
    by (simp add: busResponse_def split: option.splits)
  show "\<exists>d1 bus1 d2 bus2.
     busPublishServiceEvent n kind fd1 args1 bus = (Some d1, bus1) \<and>
     busPublishServiceEvent n kind fd2 args2 bus1 = (Some d2, bus2) \<and>
     seqNo d1 < seqNo d2 \<and> seqNo d2 = issuedFor bus2 (n, kind) \<and>
     busResponse d1 outcome1 bus2 = bus2 \<and>
     busResponse d1 outcome1 (busResponse d2 outcome2 bus2) = busResponse d2 outcome2 bus2 \<and>
     extraState (busResponse d2 (Inr updates) bus2) =
       foldl (\<lambda>ext f. setLoading f False ext) (spread (extraState bus2) updates)
         (targetFields desc)"
    using a b
    by (auto simp: busPublishServiceEvent_def busResponse_def Let_def issuedFor_def update_conv'
        split: sum.splits)
qed

theorem last_dispatch_wins_witness:
  "active exampleBus \<and>
   map_of (bindings exampleBus) (''city'', onSearch) =
     Some \<lparr>service = ''fetchCities'', targetFields = [''city'']\<rparr> \<and>
   (\<exists>d1 bus1 d2 bus2.
     busPublishServiceEvent ''city'' onSearch [] (Some [JStr ''b'']) exampleBus = (Some d1, bus1) \<and>
     busPublishServiceEvent ''city'' onSearch [] (Some [JStr ''be'']) bus1 = (Some d2, bus2) \<and>
     seqNo d1 < seqNo d2 \<and> seqNo d2 = issuedFor bus2 (''city'', onSearch) \<and>
     busResponse d1 (Inr [(''options'', JArr [JStr ''Bonn''])]) bus2 = bus2 \<and>
     busResponse d1 (Inr [(''options'', JArr [JStr ''Bonn''])])
         (busResponse d2 (Inr [(''options'', JArr [JStr ''Berlin''])]) bus2) =
       busResponse d2 (Inr [(''options'', JArr [JStr ''Berlin''])]) bus2 \<and>
     extraState (busResponse d2 (Inr [(''options'', JArr [JStr ''Berlin''])]) bus2) =
       foldl (\<lambda>ext f. setLoading f False ext)
         (spread (extraState bus2) [(''options'', JArr [JStr ''Berlin''])])
         (targetFields \<lparr>service = ''fetchCities'', targetFields = [''city'']\<rparr>)) \<and>
   (case busPublishServiceEvent ''city'' onSearch [] (Some [JStr ''b'']) exampleBus of
      (Some d1, bus1) \<Rightarrow>
        (case busPublishServiceEvent ''city'' onSearch [] (Some [JStr ''be'']) bus1 of
           (Some d2, bus2) \<Rightarrow>
             extraState
               (busResponse d1 (Inr [(''options'', JArr [JStr ''Bonn''])])
                  (busResponse d2 (Inr [(''options'', JArr [JStr ''Berlin''])]) bus2)) =
             [(''serviceLoading'', JObj [(''city'', JBool False)]),
              (''options'', JArr [JStr ''Berlin''])]
         | (None, bus2) \<Rightarrow> False)
    | (None, bus1) \<Rightarrow> False)"
proof -
  have h1: "active exampleBus"
    by (simp add: exampleBus_def)
  have h2: "map_of (bindings exampleBus) (''city'', onSearch) =
     Some \<lparr>service = ''fetchCities'', targetFields = [''city'']\<rparr>"
    by (simp add: exampleBus_def)
  have run: "(case busPublishServiceEvent ''city'' onSearch [] (Some [JStr ''b'']) exampleBus of
      (Some d1, bus1) \<Rightarrow>
        (case busPublishServiceEvent ''city'' onSearch [] (Some [JStr ''be'']) bus1 of
           (Some d2, bus2) \<Rightarrow>
             extraState
               (busResponse d1 (Inr [(''options'', JArr [JStr ''Bonn''])])
                  (busResponse d2 (Inr [(''options'', JArr [JStr ''Berlin''])]) bus2)) =
             [(''serviceLoading'', JObj [(''city'', JBool False)]),
              (''options'', JArr [JStr ''Berlin''])]
         | (None, bus2) \<Rightarrow> False)
    | (None, bus1) \<Rightarrow> False)"
    by (simp add: exampleBus_def busPublishServiceEvent_def busResponse_def issuedFor_def
        setLoading_def spread_def Let_def)
  show ?thesis
    by (rule conjI [OF h1 conjI [OF h2 conjI [OF
          last_dispatch_wins
            [OF h1 h2, of "[]" "Some [JStr ''b'']" "[]" "Some [JStr ''be'']"
               "Inr [(''options'', JArr [JStr ''Bonn''])]"
               "Inr [(''options'', JArr [JStr ''Berlin''])]"
               "[(''options'', JArr [JStr ''Berlin''])]", THEN conjunct2]
          run]]])
qed

end
